theory Spec2Isabelle
  imports Main
begin

section \<open>The MQTT client of the iDRAC controller (app/mqtt_client.py)\<close>

text \<open>
  The class \<open>MqttClient\<close> wraps a paho client object. The model is a record of the
  instance attributes, passed explicitly through every method. The paho client itself
  is outside the repository: every call the class makes on \<open>self.client\<close> is recorded,
  in order, in the field \<open>client_calls\<close>, and what the paho client answers (returning
  or raising) is a parameter of type \<open>transport\<close>. Lines printed by \<open>_log\<close> are
  collected in the field \<open>printed\<close>.

  A Python \<open>str\<close> is a \<open>string\<close> whose characters are code points below 256.
\<close>

subsection \<open>Values\<close>

datatype pyval = PyNone | PyBool bool

text \<open>
  Exceptions. \<open>ConnectionRefusedError\<close> is a subclass of \<open>OSError\<close>; the constructor
  \<open>OSError\<close> stands for the instances of \<open>OSError\<close> of any other class, \<open>Exception\<close>
  for the instances of \<open>Exception\<close> outside \<open>OSError\<close> that the transport raises, and
  \<open>IndexError\<close> for the one raised by indexing an empty list.
\<close>

datatype exn =
    ConnectionRefusedError string
  | OSError string
  | Exception string
  | IndexError

datatype 'a outcome = Returned 'a | Raised exn

text \<open>
  A finite float is kept as the decimal literal that \<open>repr\<close> prints for it and that
  \<open>float\<close> reads back (\<open>float(repr(x)) == x\<close>): the sign, the integer part, the
  digits after the point (none when there is no point) and the exponent (its sign and
  its digits) when there is one. The literals \<open>41.2\<close>, \<open>-0.0\<close>, \<open>1e-05\<close> and
  \<open>1.5e+16\<close> are of this form. Equal literals are equal floats.
\<close>

datatype pyfloat = PyFloat bool nat string "(bool \<times> string) option"

text \<open>The structured values handed to \<open>json.dumps\<close> and returned by \<open>json.loads\<close>.\<close>

datatype json =
    JNull
  | JBool bool
  | JInt int
  | JFloat pyfloat
  | JString string
  | JArray "json list"
  | JObject "(string \<times> json) list"

text \<open>
  A payload is either a plain text or the text \<open>json.dumps\<close> makes of a structured
  value; the latter is kept as the value it was made of.
\<close>

datatype payload = Text string | JsonDumps json

record message =
  topic :: string
  payload :: payload
  qos :: int
  retain :: bool

subsection \<open>The paho client as environment\<close>

datatype transport_call =
    UsernamePwSet string string
  | WillSet message
  | Connect string int int
  | LoopStart
  | LoopStop
  | Disconnect
  | Publish message

text \<open>
  \<open>client.publish\<close> returns a message info object with a field \<open>rc\<close> and a method
  \<open>is_published()\<close>, which can itself raise.
\<close>

record msg_info =
  rc :: int
  is_published :: "exn + bool"

text \<open>
  The answers of the paho client, each depending on the calls made so far:
  \<open>call_raises\<close> for the methods whose result is not used, \<open>publish_result\<close> for
  \<open>client.publish\<close>.
\<close>

record transport =
  call_raises :: "transport_call list \<Rightarrow> transport_call \<Rightarrow> exn option"
  publish_result :: "transport_call list \<Rightarrow> message \<Rightarrow> exn + msg_info"

definition MQTT_ERR_SUCCESS :: int where
  \<comment> \<open>the constant \<open>mqtt.MQTT_ERR_SUCCESS\<close> of the paho library\<close>
  "MQTT_ERR_SUCCESS = 0"

subsection \<open>The instance\<close>

record device_info =
  identifiers :: "string list"
  name :: string
  model :: string
  manufacturer :: string

text \<open>One constructor for each message text passed to \<open>_log\<close>, with the values it interpolates.\<close>

datatype log_message =
    DeviceInfoSet device_info
  | ConnectedSuccessfully string int
  | ConnectionFailed int
  | DisconnectedFromBroker int
  | AttemptingToConnect string int
  | ConnectionRefused string int
  | OSErrorConnecting string int exn
  | CouldNotConnect exn
  | GracefullyDisconnected
  | FailedToEnqueue string int
  | FailedToPublish string exn
  | NotConnectedCannotPublish string
  | DiscoveryDeviceInfoNotSet string
  | PublishedDiscovery string string string
  | SkippingStaticDiscoveries
  | PublishingStaticDiscoveries
  | StateDeviceInfoNotSet

record mqtt_client =
  client_id :: string
  broker_address :: string
  port :: int
  username :: string
  password :: string
  is_connected :: bool
  device_info_dict :: "device_info option"
  log_level :: string
  client_calls :: "transport_call list"
  printed :: "(string \<times> log_message) list"

definition init :: "string \<Rightarrow> mqtt_client" where
  "init cid =
     \<lparr>client_id = cid, broker_address = ''core-mosquitto'', port = 1883,
      username = '''', password = '''', is_connected = False,
      device_info_dict = None, log_level = ''info'',
      client_calls = [], printed = []\<rparr>"

subsection \<open>Strings\<close>

definition lower_char :: "char \<Rightarrow> char" where
  "lower_char c =
     (let n = (of_char c :: nat)
      in if (65 \<le> n \<and> n \<le> 90) \<or> (192 \<le> n \<and> n \<le> 222 \<and> n \<noteq> 215)
         then char_of (n + 32) else c)"

definition lower :: "string \<Rightarrow> string" where
  "lower s = map lower_char s"

definition replace_char :: "char \<Rightarrow> char \<Rightarrow> string \<Rightarrow> string" where
  \<comment> \<open>\<open>s.replace(a, b)\<close> for one-character strings \<open>a\<close>, \<open>b\<close>\<close>
  "replace_char a b s = map (\<lambda>c. if c = a then b else c) s"

definition str_or :: "string option \<Rightarrow> string \<Rightarrow> string" where
  \<comment> \<open>\<open>x or d\<close> for \<open>x\<close> a string or \<open>None\<close>: \<open>None\<close> and the empty string are false\<close>
  "str_or x d = (case x of None \<Rightarrow> d | Some [] \<Rightarrow> d | Some (c # cs) \<Rightarrow> c # cs)"

subsection \<open>Logging\<close>

definition levels :: "(string \<times> int) list" where
  "levels = [(''trace'', -1), (''debug'', 0), (''info'', 1), (''warning'', 2),
             (''error'', 3), (''fatal'', 4)]"

definition levels_get :: "string \<Rightarrow> int" where
  \<comment> \<open>\<open>levels.get(k, levels["info"])\<close>\<close>
  "levels_get k = (case map_of levels k of Some v \<Rightarrow> v | None \<Rightarrow> 1)"

definition log_msg :: "string \<Rightarrow> log_message \<Rightarrow> mqtt_client \<Rightarrow> mqtt_client" where
  \<comment> \<open>\<open>_log\<close>; the pair \<open>(level, message)\<close> is the line \<open>[LEVEL] MQTT: message\<close>\<close>
  "log_msg level msg s =
     (if levels_get (log_level s) \<le> levels_get (lower level)
      then s\<lparr>printed := printed s @ [(level, msg)]\<rparr>
      else s)"

subsection \<open>Configuration\<close>

definition client_call :: "transport \<Rightarrow> transport_call \<Rightarrow> mqtt_client \<Rightarrow> exn option \<times> mqtt_client" where
  \<comment> \<open>a call on \<open>self.client\<close> whose result is not used\<close>
  "client_call tr c s =
     (call_raises tr (client_calls s) c, s\<lparr>client_calls := client_calls s @ [c]\<rparr>)"

definition configure_broker ::
  "transport \<Rightarrow> string \<Rightarrow> int \<Rightarrow> string \<Rightarrow> string \<Rightarrow> string \<Rightarrow> mqtt_client \<Rightarrow> pyval outcome \<times> mqtt_client" where
  \<comment> \<open>the port is taken as an integer, on which \<open>int(port)\<close> is the identity\<close>
  "configure_broker tr host prt usr pwd lvl s =
     (let s1 = s\<lparr>broker_address := host, port := prt, username := usr, password := pwd,
                 log_level := lower lvl\<rparr>
      in if usr \<noteq> [] then
           (case client_call tr (UsernamePwSet usr pwd) s1 of
              (Some e, s2) \<Rightarrow> (Raised e, s2)
            | (None, s2) \<Rightarrow> (Returned PyNone, s2))
         else (Returned PyNone, s1))"

definition sanitized_ip :: "string option \<Rightarrow> string" where
  "sanitized_ip ip_address =
     (case ip_address of
        None \<Rightarrow> ''default_ip''
      | Some [] \<Rightarrow> ''default_ip''
      | Some (c # cs) \<Rightarrow> replace_char (CHR ''.'') (CHR ''_'') (c # cs))"

definition set_device_info ::
  "string option \<Rightarrow> string option \<Rightarrow> string option \<Rightarrow> mqtt_client \<Rightarrow> mqtt_client" where
  "set_device_info mf mdl ip_address s =
     (let d = \<lparr>identifiers = [''idrac_controller_'' @ sanitized_ip ip_address @ ''_device''],
               name = ''iDRAC Controller ('' @ str_or ip_address ''N/A'' @ '')'',
               model = str_or mdl ''HA iDRAC Controller'',
               manufacturer = str_or mf ''HA Add-on''\<rparr>
      in log_msg ''info'' (DeviceInfoSet d) (s\<lparr>device_info_dict := Some d\<rparr>))"

subsection \<open>Publishing\<close>

definition publish ::
  "transport \<Rightarrow> string \<Rightarrow> payload \<Rightarrow> bool \<Rightarrow> int \<Rightarrow> mqtt_client \<Rightarrow> bool \<times> mqtt_client" where
  "publish tr tp pl rt q s =
     (if is_connected s then
        (let m = \<lparr>topic = tp, payload = pl, qos = q, retain = rt\<rparr>;
             s1 = s\<lparr>client_calls := client_calls s @ [Publish m]\<rparr>
         in case publish_result tr (client_calls s) m of
              Inl e \<Rightarrow> (False, log_msg ''error'' (FailedToPublish tp e) s1)
            | Inr info \<Rightarrow>
                (let s2 = (if rc info = MQTT_ERR_SUCCESS then s1
                           else log_msg ''warning'' (FailedToEnqueue tp (rc info)) s1)
                 in case is_published info of
                      Inl e \<Rightarrow> (False, log_msg ''error'' (FailedToPublish tp e) s2)
                    | Inr b \<Rightarrow> (b, s2)))
      else (False, log_msg ''warning'' (NotConnectedCannotPublish tp) s))"

record sensor =
  sensor_type_slug :: string
  sensor_name :: string
  device_class :: "string option"
  unit_of_measurement :: "string option"
  icon :: "string option"
  value_template :: "string option"
  entity_category :: "string option"
  unique_id_suffix :: "string option"
  state_class :: "string option"

definition optional_key :: "string \<Rightarrow> string option \<Rightarrow> (string \<times> json) list" where
  \<comment> \<open>\<open>if v: payload[k] = v\<close> on a dictionary without the key \<open>k\<close>\<close>
  "optional_key k v = (case v of None \<Rightarrow> [] | Some [] \<Rightarrow> [] | Some (c # cs) \<Rightarrow> [(k, JString (c # cs))])"

definition device_json :: "device_info \<Rightarrow> json" where
  "device_json d =
     JObject [(''identifiers'', JArray (map JString (identifiers d))),
              (''name'', JString (name d)),
              (''model'', JString (model d)),
              (''manufacturer'', JString (manufacturer d))]"

text \<open>The local variables of \<open>publish_sensor_discovery\<close>; \<open>ident\<close> is
  \<open>self.device_info_dict['identifiers'][0]\<close>.\<close>

definition base_unique_id :: "string \<Rightarrow> sensor \<Rightarrow> string" where
  "base_unique_id ident a =
     (let u = ident @ ''_'' @ sensor_type_slug a
      in case unique_id_suffix a of
           None \<Rightarrow> u
         | Some [] \<Rightarrow> u
         | Some (c # cs) \<Rightarrow> u @ ''_'' @ (c # cs))"

definition config_topic_slug_part :: "string \<Rightarrow> string option \<Rightarrow> string" where
  "config_topic_slug_part slug suffix = slug @ str_or suffix []"

definition config_topic :: "string \<Rightarrow> sensor \<Rightarrow> string" where
  "config_topic ident a =
     ''homeassistant/sensor/'' @ ident @ ''/'' @
     config_topic_slug_part (sensor_type_slug a) (unique_id_suffix a) @ ''/config''"

definition state_topic_base :: "string \<Rightarrow> string" where
  "state_topic_base ident = ''ha_idrac_controller/sensor/'' @ ident"

definition discovery_payload :: "device_info \<Rightarrow> string \<Rightarrow> sensor \<Rightarrow> (string \<times> json) list" where
  "discovery_payload d ident a =
     [(''name'', JString (sensor_name a)),
      (''state_topic'', JString (state_topic_base ident @ ''/'' @
          config_topic_slug_part (sensor_type_slug a) (unique_id_suffix a) @ ''/state'')),
      (''unique_id'', JString (base_unique_id ident a)),
      (''device'', device_json d),
      (''availability_topic'', JString ''ha_idrac_controller/status''),
      (''payload_available'', JString ''online''),
      (''payload_not_available'', JString ''offline'')]
     @ optional_key ''device_class'' (device_class a)
     @ optional_key ''unit_of_measurement'' (unit_of_measurement a)
     @ optional_key ''icon'' (icon a)
     @ optional_key ''value_template'' (value_template a)
     @ optional_key ''entity_category'' (entity_category a)
     @ optional_key ''state_class'' (state_class a)"

definition publish_sensor_discovery ::
  "transport \<Rightarrow> sensor \<Rightarrow> mqtt_client \<Rightarrow> pyval outcome \<times> mqtt_client" where
  "publish_sensor_discovery tr a s =
     (case device_info_dict s of
        None \<Rightarrow> (Returned PyNone, log_msg ''warning'' (DiscoveryDeviceInfoNotSet (sensor_name a)) s)
      | Some d \<Rightarrow>
          (case identifiers d of
             [] \<Rightarrow> (Raised IndexError, s)
           | ident # _ \<Rightarrow>
               (let s1 = snd (publish tr (config_topic ident a)
                                (JsonDumps (JObject (discovery_payload d ident a))) True 0 s)
                in (Returned PyNone,
                    log_msg ''debug''
                      (PublishedDiscovery (sensor_name a) (base_unique_id ident a)
                         (config_topic ident a)) s1))))"

subsection \<open>The static sensors\<close>

definition degrees_celsius :: string where
  \<comment> \<open>the degree sign (code point 176) and \<open>C\<close>\<close>
  "degrees_celsius = [CHR 0xB0, CHR ''C'']"

definition plain_sensor :: "string \<Rightarrow> string \<Rightarrow> sensor" where
  \<comment> \<open>the defaults of the keyword arguments of \<open>publish_sensor_discovery\<close>\<close>
  "plain_sensor slug nm =
     \<lparr>sensor_type_slug = slug, sensor_name = nm, device_class = None,
      unit_of_measurement = None, icon = None, value_template = None,
      entity_category = None, unique_id_suffix = None, state_class = None\<rparr>"

definition inlet_temp :: sensor where
  "inlet_temp = (plain_sensor ''inlet_temp'' ''Inlet Temperature'')
     \<lparr>device_class := Some ''temperature'', unit_of_measurement := Some degrees_celsius,
      value_template := Some ''{{ value_json.temperature | round(1) }}''\<rparr>"

definition exhaust_temp :: sensor where
  "exhaust_temp = (plain_sensor ''exhaust_temp'' ''Exhaust Temperature'')
     \<lparr>device_class := Some ''temperature'', unit_of_measurement := Some degrees_celsius,
      value_template := Some ''{{ value_json.temperature | round(1) }}''\<rparr>"

definition target_fan_speed :: sensor where
  "target_fan_speed = (plain_sensor ''target_fan_speed'' ''Target Fan Speed'')
     \<lparr>unit_of_measurement := Some ''%'', icon := Some ''mdi:fan-chevron-up'',
      value_template := Some (''{{ value_json.speed if value_json.speed is not none else '' @
        [CHR 0x27] @ ''Auto'' @ [CHR 0x27] @ '' }}'')\<rparr>"

definition hottest_cpu_temp :: sensor where
  "hottest_cpu_temp = (plain_sensor ''hottest_cpu_temp'' ''Hottest CPU Temp'')
     \<lparr>device_class := Some ''temperature'', unit_of_measurement := Some degrees_celsius,
      value_template := Some ''{{ value_json.temperature | round(1) }}''\<rparr>"

definition power_consumption :: sensor where
  "power_consumption = (plain_sensor ''power_consumption'' ''Power Consumption'')
     \<lparr>device_class := Some ''power'', unit_of_measurement := Some ''W'',
      state_class := Some ''measurement'', icon := Some ''mdi:flash'',
      value_template := Some ''{{ value_json.power | round(0) }}''\<rparr>"

definition static_sensors :: "sensor list" where
  "static_sensors = [inlet_temp, exhaust_temp, target_fan_speed, hottest_cpu_temp, power_consumption]"

text \<open>Calls in sequence: an exception ends the sequence.\<close>

fun publish_discoveries ::
  "transport \<Rightarrow> sensor list \<Rightarrow> mqtt_client \<Rightarrow> pyval outcome \<times> mqtt_client" where
  "publish_discoveries tr [] s = (Returned PyNone, s)"
| "publish_discoveries tr (a # as) s =
     (case publish_sensor_discovery tr a s of
        (Raised e, s1) \<Rightarrow> (Raised e, s1)
      | (Returned _, s1) \<Rightarrow> publish_discoveries tr as s1)"

definition publish_static_sensor_discoveries ::
  "transport \<Rightarrow> mqtt_client \<Rightarrow> pyval outcome \<times> mqtt_client" where
  "publish_static_sensor_discoveries tr s =
     (if \<not> is_connected s \<or> device_info_dict s = None then
        (Returned PyNone, log_msg ''warning'' SkippingStaticDiscoveries s)
      else publish_discoveries tr static_sensors
             (log_msg ''info'' PublishingStaticDiscoveries s))"

subsection \<open>State publication\<close>

definition state_topic :: "string \<Rightarrow> string \<Rightarrow> string option \<Rightarrow> string" where
  "state_topic ident slug suffix =
     state_topic_base ident @ ''/'' @ slug @ str_or suffix [] @ ''/state''"

definition publish_sensor_state ::
  "transport \<Rightarrow> string \<Rightarrow> json \<Rightarrow> string option \<Rightarrow> mqtt_client \<Rightarrow> pyval outcome \<times> mqtt_client" where
  "publish_sensor_state tr slug value_dict suffix s =
     (case device_info_dict s of
        None \<Rightarrow> (Returned PyNone, log_msg ''warning'' StateDeviceInfoNotSet s)
      | Some d \<Rightarrow>
          (case identifiers d of
             [] \<Rightarrow> (Raised IndexError, s)
           | ident # _ \<Rightarrow>
               (Returned PyNone,
                snd (publish tr (state_topic ident slug suffix) (JsonDumps value_dict) False 0 s))))"

subsection \<open>Connection lifecycle\<close>

definition status_topic :: string where
  "status_topic = ''ha_idrac_controller/status''"

definition status_config_topic :: "string \<Rightarrow> string" where
  "status_config_topic ident =
     ''homeassistant/binary_sensor/idrac_controller_'' @ ident @ ''/status/config''"

definition status_config_payload :: "device_info \<Rightarrow> string \<Rightarrow> (string \<times> json) list" where
  "status_config_payload d ident =
     [(''name'', JString ''iDRAC Controller Connectivity''),
      (''state_topic'', JString ''ha_idrac_controller/status''),
      (''unique_id'', JString (''idrac_controller_'' @ ident @ ''_connectivity'')),
      (''device_class'', JString ''connectivity''),
      (''payload_on'', JString ''online''),
      (''payload_off'', JString ''offline''),
      (''device'', device_json d)]"

definition on_connect :: "transport \<Rightarrow> int \<Rightarrow> mqtt_client \<Rightarrow> pyval outcome \<times> mqtt_client" where
  "on_connect tr code s =
     (if code = 0 then
        (let s1 = log_msg ''info'' (ConnectedSuccessfully (broker_address s) (port s)) s;
             s2 = s1\<lparr>is_connected := True\<rparr>
         in case (case device_info_dict s2 of
                    None \<Rightarrow> (Returned PyNone, s2)
                  | Some d \<Rightarrow>
                      (case identifiers d of
                         [] \<Rightarrow> (Raised IndexError, s2)
                       | ident # _ \<Rightarrow>
                           (Returned PyNone,
                            snd (publish tr (status_config_topic ident)
                                   (JsonDumps (JObject (status_config_payload d ident))) True 0 s2)))) of
              (Raised e, s3) \<Rightarrow> (Raised e, s3)
            | (Returned _, s3) \<Rightarrow>
                publish_static_sensor_discoveries tr
                  (snd (publish tr status_topic (Text ''online'') True 0 s3)))
      else (Returned PyNone,
            (log_msg ''error'' (ConnectionFailed code) s)\<lparr>is_connected := False\<rparr>))"

definition on_disconnect :: "int \<Rightarrow> mqtt_client \<Rightarrow> mqtt_client" where
  "on_disconnect code s = (log_msg ''info'' (DisconnectedFromBroker code) s)\<lparr>is_connected := False\<rparr>"

definition connect_handler :: "exn \<Rightarrow> mqtt_client \<Rightarrow> mqtt_client" where
  \<comment> \<open>the \<open>except\<close> clauses of \<open>connect\<close>, in their order\<close>
  "connect_handler e s =
     (case e of
        ConnectionRefusedError _ \<Rightarrow>
          log_msg ''error'' (ConnectionRefused (broker_address s) (port s)) s
      | OSError _ \<Rightarrow>
          log_msg ''error'' (OSErrorConnecting (broker_address s) (port s) e) s
      | _ \<Rightarrow> log_msg ''error'' (CouldNotConnect e) s)"

definition will_message :: message where
  "will_message = \<lparr>topic = status_topic, payload = Text ''offline'', qos = 1, retain = True\<rparr>"

definition connect :: "transport \<Rightarrow> mqtt_client \<Rightarrow> pyval outcome \<times> mqtt_client" where
  "connect tr s =
     (if \<not> is_connected s then
        (let s0 = log_msg ''info'' (AttemptingToConnect (broker_address s) (port s)) s
         in case client_call tr (WillSet will_message) s0 of
              (Some e, s1) \<Rightarrow> (Returned PyNone, connect_handler e s1)
            | (None, s1) \<Rightarrow>
                (case client_call tr (Connect (broker_address s1) (port s1) 60) s1 of
                   (Some e, s2) \<Rightarrow> (Returned PyNone, connect_handler e s2)
                 | (None, s2) \<Rightarrow>
                     (case client_call tr LoopStart s2 of
                        (Some e, s3) \<Rightarrow> (Returned PyNone, connect_handler e s3)
                      | (None, s3) \<Rightarrow> (Returned PyNone, s3))))
      else (Returned PyNone, s))"

definition disconnect :: "transport \<Rightarrow> mqtt_client \<Rightarrow> pyval outcome \<times> mqtt_client" where
  "disconnect tr s =
     (if is_connected s then
        (case client_call tr LoopStop s of
           (Some e, s1) \<Rightarrow> (Raised e, s1)
         | (None, s1) \<Rightarrow>
             (case client_call tr Disconnect s1 of
                (Some e, s2) \<Rightarrow> (Raised e, s2)
              | (None, s2) \<Rightarrow>
                  (Returned PyNone,
                   (log_msg ''info'' GracefullyDisconnected s2)\<lparr>is_connected := False\<rparr>)))
      else (Returned PyNone, s))"

subsection \<open>The json library\<close>

text \<open>
  \<open>json.dumps\<close> and \<open>json.loads\<close> of the Python standard library, with their default
  arguments, as the library documentation and the JSON grammar give them. The texts
  are strings of code points below 256; an escape \<open>\uXXXX\<close> of a larger code point
  and the tokens \<open>NaN\<close>, \<open>Infinity\<close> and \<open>-Infinity\<close> are outside the model, where
  \<open>json_loads\<close> gives \<open>None\<close> as it does for the texts on which \<open>json.loads\<close> raises.
\<close>

definition quote_char :: char where
  "quote_char = CHR 0x22"

definition backslash_char :: char where
  "backslash_char = CHR 0x5C"

definition is_digit :: "char \<Rightarrow> bool" where
  "is_digit c = (48 \<le> (of_char c :: nat) \<and> (of_char c :: nat) \<le> 57)"

definition digit_char :: "nat \<Rightarrow> char" where
  "digit_char n = char_of (48 + n)"

definition digit_value :: "char \<Rightarrow> nat" where
  "digit_value c = of_char c - 48"

text \<open>\<open>repr\<close> of a natural number, and \<open>int\<close> of a string of digits.\<close>

fun decimal :: "nat \<Rightarrow> string" where
  "decimal n = (if n < 10 then [digit_char n] else decimal (n div 10) @ [digit_char (n mod 10)])"

declare decimal.simps [simp del]

definition nat_of_digits :: "string \<Rightarrow> nat" where
  "nat_of_digits ds = foldl (\<lambda>a c. 10 * a + digit_value c) 0 ds"

definition int_repr :: "int \<Rightarrow> string" where
  "int_repr i = (if i < 0 then CHR ''-'' # decimal (nat (- i)) else decimal (nat i))"

definition float_repr :: "pyfloat \<Rightarrow> string" where
  "float_repr f =
     (case f of PyFloat neg ip fr ex \<Rightarrow>
        (if neg then ''-'' else []) @ decimal ip @
        (if fr = [] then [] else CHR ''.'' # fr) @
        (case ex of
           None \<Rightarrow> []
         | Some (eneg, ed) \<Rightarrow> CHR ''e'' # (if eneg then CHR ''-'' else CHR ''+'') # ed))"

text \<open>The string encoder with \<open>ensure_ascii\<close>: every character outside the range from
  the space to the tilde, the quote and the backslash are escaped.\<close>

definition hex_char :: "nat \<Rightarrow> char" where
  "hex_char n = (if n < 10 then char_of (48 + n) else char_of (87 + n))"

definition escape_char :: "char \<Rightarrow> string" where
  "escape_char c =
     (let n = (of_char c :: nat)
      in if c = quote_char then [backslash_char, quote_char]
         else if c = backslash_char then [backslash_char, backslash_char]
         else if n = 10 then [backslash_char, CHR ''n'']
         else if n = 13 then [backslash_char, CHR ''r'']
         else if n = 9 then [backslash_char, CHR ''t'']
         else if n = 8 then [backslash_char, CHR ''b'']
         else if n = 12 then [backslash_char, CHR ''f'']
         else if 32 \<le> n \<and> n \<le> 126 then [c]
         else [backslash_char, CHR ''u'', CHR ''0'', CHR ''0'',
               hex_char (n div 16), hex_char (n mod 16)])"

definition encode_string :: "string \<Rightarrow> string" where
  "encode_string s = quote_char # concat (map escape_char s) @ [quote_char]"

fun join :: "string \<Rightarrow> string list \<Rightarrow> string" where
  "join sep [] = []"
| "join sep [x] = x"
| "join sep (x # y # ys) = x @ sep @ join sep (y # ys)"

definition member_text :: "string \<times> string \<Rightarrow> string" where
  "member_text kt = encode_string (fst kt) @ '': '' @ snd kt"

primrec json_dumps :: "json \<Rightarrow> string" where
  "json_dumps JNull = ''null''"
| "json_dumps (JBool b) = (if b then ''true'' else ''false'')"
| "json_dumps (JInt i) = int_repr i"
| "json_dumps (JFloat f) = float_repr f"
| "json_dumps (JString s) = encode_string s"
| "json_dumps (JArray xs) = ''['' @ join '', '' (map json_dumps xs) @ '']''"
| "json_dumps (JObject kvs) =
     ''{'' @ join '', '' (map member_text (map (map_prod id json_dumps) kvs)) @ ''}''"

text \<open>The decoder.\<close>

definition is_ws :: "char \<Rightarrow> bool" where
  "is_ws c = (c = CHR '' '' \<or> (of_char c :: nat) = 9 \<or> (of_char c :: nat) = 10 \<or>
              (of_char c :: nat) = 13)"

definition skip_ws :: "string \<Rightarrow> string" where
  "skip_ws s = dropWhile is_ws s"

definition hex_value :: "char \<Rightarrow> nat option" where
  "hex_value c =
     (let n = (of_char c :: nat)
      in if 48 \<le> n \<and> n \<le> 57 then Some (n - 48)
         else if 97 \<le> n \<and> n \<le> 102 then Some (n - 87)
         else if 65 \<le> n \<and> n \<le> 70 then Some (n - 55)
         else None)"

definition decode_uxxxx :: "char \<Rightarrow> char \<Rightarrow> char \<Rightarrow> char \<Rightarrow> nat option" where
  "decode_uxxxx a b c d =
     (case (hex_value a, hex_value b, hex_value c, hex_value d) of
        (Some w, Some x, Some y, Some z) \<Rightarrow> Some (((w * 16 + x) * 16 + y) * 16 + z)
      | _ \<Rightarrow> None)"

definition unescape :: "char \<Rightarrow> char option" where
  \<comment> \<open>the table \<open>BACKSLASH\<close>\<close>
  "unescape e =
     (if e = quote_char then Some quote_char
      else if e = backslash_char then Some backslash_char
      else if e = CHR ''/'' then Some CHR ''/''
      else if e = CHR ''b'' then Some (char_of (8 :: nat))
      else if e = CHR ''f'' then Some (char_of (12 :: nat))
      else if e = CHR ''n'' then Some (char_of (10 :: nat))
      else if e = CHR ''r'' then Some (char_of (13 :: nat))
      else if e = CHR ''t'' then Some (char_of (9 :: nat))
      else None)"

definition prepend :: "char \<Rightarrow> (string \<times> string) option \<Rightarrow> (string \<times> string) option" where
  "prepend c r = (case r of None \<Rightarrow> None | Some (s, rest) \<Rightarrow> Some (c # s, rest))"

text \<open>\<open>scanstring\<close>, from the character after the opening quote; strict mode refuses a
  raw control character.\<close>

fun scanstring :: "string \<Rightarrow> (string \<times> string) option" where
  "scanstring [] = None"
| "scanstring (c # cs) =
     (if c = quote_char then Some ([], cs)
      else if c = backslash_char then
        (case cs of
           [] \<Rightarrow> None
         | e # r \<Rightarrow>
             if e = CHR ''u'' then
               (case r of
                  h1 # h2 # h3 # h4 # r' \<Rightarrow>
                    (case decode_uxxxx h1 h2 h3 h4 of
                       None \<Rightarrow> None
                     | Some n \<Rightarrow> if n < 256 then prepend (char_of n) (scanstring r') else None)
                | _ \<Rightarrow> None)
             else
               (case unescape e of
                  None \<Rightarrow> None
                | Some ch \<Rightarrow> prepend ch (scanstring r)))
      else if (of_char c :: nat) < 32 then None
      else prepend c (scanstring cs))"

text \<open>The number pattern: an integer part \<open>0\<close> or a digit from 1 to 9 and digits, then
  if they match a point and digits, then if they match an exponent.\<close>

definition scan_int_part :: "string \<Rightarrow> (nat \<times> string) option" where
  "scan_int_part s =
     (case s of
        [] \<Rightarrow> None
      | c # r \<Rightarrow>
          if \<not> is_digit c then None
          else if c = CHR ''0'' then Some (0, r)
          else Some (nat_of_digits (c # takeWhile is_digit r), dropWhile is_digit r))"

definition scan_frac :: "string \<Rightarrow> string \<times> string" where
  "scan_frac s =
     (case s of
        p # d # r \<Rightarrow>
          if p = CHR ''.'' \<and> is_digit d
          then (takeWhile is_digit (d # r), dropWhile is_digit (d # r))
          else ([], s)
      | _ \<Rightarrow> ([], s))"

definition scan_exp :: "string \<Rightarrow> (bool \<times> string) option \<times> string" where
  "scan_exp s =
     (case s of
        [] \<Rightarrow> (None, s)
      | e # r \<Rightarrow>
          if e = CHR ''e'' \<or> e = CHR ''E'' then
            (let (eneg, r1) =
                   (case r of
                      [] \<Rightarrow> (False, r)
                    | c # r' \<Rightarrow>
                        if c = CHR ''-'' then (True, r')
                        else if c = CHR ''+'' then (False, r')
                        else (False, r))
             in case r1 of
                  [] \<Rightarrow> (None, s)
                | d # _ \<Rightarrow>
                    if is_digit d
                    then (Some (eneg, takeWhile is_digit r1), dropWhile is_digit r1)
                    else (None, s))
          else (None, s))"

definition scan_number :: "string \<Rightarrow> (json \<times> string) option" where
  "scan_number s =
     (let (neg, s1) = (case s of
                         [] \<Rightarrow> (False, s)
                       | c # r \<Rightarrow> if c = CHR ''-'' then (True, r) else (False, s))
      in case scan_int_part s1 of
           None \<Rightarrow> None
         | Some (ip, s2) \<Rightarrow>
             (let (fr, s3) = scan_frac s2;
                  (ex, s4) = scan_exp s3
              in if fr = [] \<and> ex = None
                 then Some (JInt (if neg then - int ip else int ip), s4)
                 else Some (JFloat (PyFloat neg ip fr ex), s4)))"

text \<open>A dictionary keeps the place of a key that is set again.\<close>

fun dict_setitem :: "(string \<times> json) list \<Rightarrow> string \<Rightarrow> json \<Rightarrow> (string \<times> json) list" where
  "dict_setitem [] k v = [(k, v)]"
| "dict_setitem ((k', v') # kvs) k v =
     (if k' = k then (k, v) # kvs else (k', v') # dict_setitem kvs k v)"

definition dict_of_pairs :: "(string \<times> json) list \<Rightarrow> (string \<times> json) list" where
  "dict_of_pairs pairs = foldl (\<lambda>d kv. dict_setitem d (fst kv) (snd kv)) [] pairs"

definition starts_with :: "string \<Rightarrow> string \<Rightarrow> bool" where
  "starts_with p s = (take (length p) s = p)"

text \<open>
  The scanner. The first argument bounds the number of nested calls, so that the
  functions are total; \<open>json_loads\<close> starts it with more than the length of the text.
  \<open>parse_members\<close> starts after the opening quote of a key, \<open>parse_elements\<close> at the
  first character of an element.
\<close>

fun parse_value :: "nat \<Rightarrow> string \<Rightarrow> (json \<times> string) option"
  and parse_members :: "nat \<Rightarrow> (string \<times> json) list \<Rightarrow> string \<Rightarrow> (json \<times> string) option"
  and parse_elements :: "nat \<Rightarrow> json list \<Rightarrow> string \<Rightarrow> (json \<times> string) option"
where
  "parse_value 0 s = None"
| "parse_value (Suc n) s =
     (case s of
        [] \<Rightarrow> None
      | c # cs \<Rightarrow>
          if c = quote_char then
            (case scanstring cs of None \<Rightarrow> None | Some (str, r) \<Rightarrow> Some (JString str, r))
          else if c = CHR ''{'' then
            (case skip_ws cs of
               [] \<Rightarrow> None
             | q # r \<Rightarrow>
                 if q = CHR ''}'' then Some (JObject [], r)
                 else if q = quote_char then parse_members n [] r
                 else None)
          else if c = CHR ''['' then
            (case skip_ws cs of
               [] \<Rightarrow> None
             | q # r \<Rightarrow>
                 if q = CHR '']'' then Some (JArray [], r)
                 else parse_elements n [] (q # r))
          else if starts_with ''null'' s then Some (JNull, drop 4 s)
          else if starts_with ''true'' s then Some (JBool True, drop 4 s)
          else if starts_with ''false'' s then Some (JBool False, drop 5 s)
          else scan_number s)"
| "parse_members 0 pairs s = None"
| "parse_members (Suc n) pairs s =
     (case scanstring s of
        None \<Rightarrow> None
      | Some (key, s1) \<Rightarrow>
          (case skip_ws s1 of
             [] \<Rightarrow> None
           | c # s2 \<Rightarrow>
               if c \<noteq> CHR '':'' then None
               else
                 (case parse_value n (skip_ws s2) of
                    None \<Rightarrow> None
                  | Some (v, s3) \<Rightarrow>
                      (case skip_ws s3 of
                         [] \<Rightarrow> None
                       | d # s4 \<Rightarrow>
                           if d = CHR ''}'' then
                             Some (JObject (dict_of_pairs (pairs @ [(key, v)])), s4)
                           else if d \<noteq> CHR '','' then None
                           else
                             (case skip_ws s4 of
                                [] \<Rightarrow> None
                              | q # s5 \<Rightarrow>
                                  if q = quote_char
                                  then parse_members n (pairs @ [(key, v)]) s5
                                  else None)))))"
| "parse_elements 0 elems s = None"
| "parse_elements (Suc n) elems s =
     (case parse_value n s of
        None \<Rightarrow> None
      | Some (v, s1) \<Rightarrow>
          (case skip_ws s1 of
             [] \<Rightarrow> None
           | d # s2 \<Rightarrow>
               if d = CHR '']'' then Some (JArray (elems @ [v]), s2)
               else if d \<noteq> CHR '','' then None
               else parse_elements n (elems @ [v]) (skip_ws s2)))"

definition json_loads :: "string \<Rightarrow> json option" where
  "json_loads s =
     (case parse_value (Suc (length s)) (skip_ws s) of
        None \<Rightarrow> None
      | Some (v, r) \<Rightarrow> if skip_ws r = [] then Some v else None)"









subsection \<open>Messages, the words of the specification and concrete inputs\<close>

definition accepting_transport :: transport where
  \<comment> \<open>a paho client that never raises and reports every message as published\<close>
  "accepting_transport =
     \<lparr>call_raises = (\<lambda>_ _. None),
      publish_result = (\<lambda>_ _. Inr \<lparr>rc = 0, is_published = Inr True\<rparr>)\<rparr>"

definition refusing_transport :: transport where
  \<comment> \<open>a paho client whose \<open>connect\<close> is refused by the broker\<close>
  "refusing_transport =
     \<lparr>call_raises = (\<lambda>_ c. case c of Connect _ _ _ \<Rightarrow> Some (ConnectionRefusedError ''refused'') | _ \<Rightarrow> None),
      publish_result = (\<lambda>_ _. Inr \<lparr>rc = 0, is_published = Inr True\<rparr>)\<rparr>"

definition fresh_client :: mqtt_client where
  "fresh_client = init ''ha_idrac_controller_2''"

definition identified_client :: mqtt_client where
  \<comment> \<open>after \<open>set_device_info(None, None, "192.168.1.5")\<close>\<close>
  "identified_client = set_device_info None None (Some ''192.168.1.5'') fresh_client"

definition connected_client :: mqtt_client where
  \<comment> \<open>after the connect callback has reported success\<close>
  "connected_client = snd (on_connect accepting_transport 0 identified_client)"

definition discovery_message :: "device_info \<Rightarrow> string \<Rightarrow> sensor \<Rightarrow> message" where
  \<comment> \<open>the arguments of the \<open>self.publish\<close> call of \<open>publish_sensor_discovery\<close>\<close>
  "discovery_message d ident a =
     \<lparr>topic = config_topic ident a,
      payload = JsonDumps (JObject (discovery_payload d ident a)),
      qos = 0, retain = True\<rparr>"

definition alphanumeric :: "char \<Rightarrow> bool" where
  "alphanumeric c =
     (let n = (of_char c :: nat)
      in (48 \<le> n \<and> n \<le> 57) \<or> (65 \<le> n \<and> n \<le> 90) \<or> (97 \<le> n \<and> n \<le> 122))"

definition spec_device_identifier :: "string option \<Rightarrow> string" where
  \<comment> \<open>the identifier in the words of the specification: every non-alphanumeric character
      of the address replaced by an underscore, a placeholder for an absent address\<close>
  "spec_device_identifier addr =
     ''idrac_controller_'' @
     (case addr of
        None \<Rightarrow> ''default_ip''
      | Some a \<Rightarrow> map (\<lambda>c. if alphanumeric c then c else CHR ''_'') a) @
     ''_device''"

definition online_message :: message where
  "online_message =
     \<lparr>topic = ''ha_idrac_controller/status'', payload = Text ''online'', qos = 0, retain = True\<rparr>"

definition status_config_message :: "device_info \<Rightarrow> string \<Rightarrow> message" where
  \<comment> \<open>the arguments of the first \<open>self.publish\<close> call of \<open>on_connect\<close>\<close>
  "status_config_message d ident =
     \<lparr>topic = status_config_topic ident,
      payload = JsonDumps (JObject (status_config_payload d ident)),
      qos = 0, retain = True\<rparr>"

definition first_failure :: "transport \<Rightarrow> mqtt_client \<Rightarrow> exn option" where
  \<comment> \<open>the exception, if any, that the paho client raises in the \<open>try\<close> block of \<open>connect\<close>:
      in \<open>will_set\<close>, else in \<open>connect\<close>, else in \<open>loop_start\<close>\<close>
  "first_failure tr s =
     (let cs = client_calls s;
          c1 = WillSet will_message;
          c2 = Connect (broker_address s) (port s) 60
      in case call_raises tr cs c1 of
           Some e \<Rightarrow> Some e
         | None \<Rightarrow>
             (case call_raises tr (cs @ [c1]) c2 of
                Some e \<Rightarrow> Some e
              | None \<Rightarrow> call_raises tr (cs @ [c1, c2]) LoopStart))"

definition connect_error_message :: "exn \<Rightarrow> mqtt_client \<Rightarrow> log_message" where
  "connect_error_message e s =
     (case e of
        ConnectionRefusedError _ \<Rightarrow> ConnectionRefused (broker_address s) (port s)
      | OSError _ \<Rightarrow> OSErrorConnecting (broker_address s) (port s) e
      | Exception _ \<Rightarrow> CouldNotConnect e
      | IndexError \<Rightarrow> CouldNotConnect e)"

definition device_192_168_1_5 :: device_info where
  "device_192_168_1_5 =
     \<lparr>identifiers = [''idrac_controller_192_168_1_5_device''],
      name = ''iDRAC Controller (192.168.1.5)'',
      model = ''HA iDRAC Controller'',
      manufacturer = ''HA Add-on''\<rparr>"

section \<open>Properties\<close>

subsection \<open>Logging\<close>

lemma levels_get_lower:
  "levels_get (lower ''info'') = 1"
  "levels_get (lower ''warning'') = 2"
  "levels_get (lower ''error'') = 3"
  "levels_get (lower ''debug'') = 0"
  by (simp_all add: levels_get_def levels_def lower_def lower_char_def)

lemma log_msg_frame [simp]:
  "is_connected (log_msg l m s) = is_connected s"
  "device_info_dict (log_msg l m s) = device_info_dict s"
  "client_calls (log_msg l m s) = client_calls s"
  "log_level (log_msg l m s) = log_level s"
  "broker_address (log_msg l m s) = broker_address s"
  "port (log_msg l m s) = port s"
  by (simp_all add: log_msg_def)

lemma log_msg_printed:
  "printed (log_msg l m s) =
     (if levels_get (log_level s) \<le> levels_get (lower l) then printed s @ [(l, m)] else printed s)"
  by (simp add: log_msg_def)

subsection \<open>What \<open>publish\<close> changes\<close>

lemma publish_frame [simp]:
  "is_connected (snd (publish tr tp pl rt q s)) = is_connected s"
  "device_info_dict (snd (publish tr tp pl rt q s)) = device_info_dict s"
  "log_level (snd (publish tr tp pl rt q s)) = log_level s"
  by (simp_all add: publish_def Let_def split: sum.splits)

lemma publish_calls:
  "client_calls (snd (publish tr tp pl rt q s)) =
     (if is_connected s
      then client_calls s @ [Publish \<lparr>topic = tp, payload = pl, qos = q, retain = rt\<rparr>]
      else client_calls s)"
  by (simp add: publish_def Let_def split: sum.splits)

lemma publish_not_connected:
  "\<not> is_connected s \<Longrightarrow>
   publish tr tp pl rt q s = (False, log_msg ''warning'' (NotConnectedCannotPublish tp) s)"
  by (simp add: publish_def)

subsection \<open>What a discovery changes\<close>

lemma publish_sensor_discovery_frame [simp]:
  "is_connected (snd (publish_sensor_discovery tr a s)) = is_connected s"
  "device_info_dict (snd (publish_sensor_discovery tr a s)) = device_info_dict s"
  "log_level (snd (publish_sensor_discovery tr a s)) = log_level s"
  by (simp_all add: publish_sensor_discovery_def Let_def split: option.splits list.splits)

lemma publish_sensor_discovery_identified:
  assumes "device_info_dict s = Some d" and "identifiers d = ident # rest"
  shows "fst (publish_sensor_discovery tr a s) = Returned PyNone"
    and "client_calls (snd (publish_sensor_discovery tr a s)) =
           (if is_connected s then client_calls s @ [Publish (discovery_message d ident a)]
            else client_calls s)"
  using assms
  by (simp_all add: publish_sensor_discovery_def Let_def publish_calls discovery_message_def)

lemma publish_discoveries_frame:
  "is_connected (snd (publish_discoveries tr as s)) = is_connected s \<and>
   device_info_dict (snd (publish_discoveries tr as s)) = device_info_dict s \<and>
   log_level (snd (publish_discoveries tr as s)) = log_level s"
proof (induction as arbitrary: s)
  case Nil
  show ?case by simp
next
  case (Cons a as)
  obtain r s1 where p: "publish_sensor_discovery tr a s = (r, s1)"
    by (cases "publish_sensor_discovery tr a s") simp
  have "s1 = snd (publish_sensor_discovery tr a s)"
    by (simp add: p)
  then have f: "is_connected s1 = is_connected s"
      "device_info_dict s1 = device_info_dict s" "log_level s1 = log_level s"
    by simp_all
  show ?case
    using Cons.IH [of s1] by (cases r) (simp_all add: p f)
qed

lemma publish_discoveries_identified:
  assumes "device_info_dict s = Some d" and "identifiers d = ident # rest"
  shows "fst (publish_discoveries tr as s) = Returned PyNone \<and>
         client_calls (snd (publish_discoveries tr as s)) =
           (if is_connected s
            then client_calls s @ map (\<lambda>a. Publish (discovery_message d ident a)) as
            else client_calls s)"
  using assms
proof (induction as arbitrary: s)
  case Nil
  then show ?case by simp
next
  case (Cons a as)
  obtain s1 where s1: "publish_sensor_discovery tr a s = (Returned PyNone, s1)"
    using publish_sensor_discovery_identified(1) [OF Cons.prems, of tr a]
    by (cases "publish_sensor_discovery tr a s") simp
  have s1_eq: "s1 = snd (publish_sensor_discovery tr a s)"
    by (simp add: s1)
  have d1: "device_info_dict s1 = Some d" and c1: "is_connected s1 = is_connected s"
    by (simp_all add: s1_eq Cons.prems)
  have calls1: "client_calls s1 =
      (if is_connected s then client_calls s @ [Publish (discovery_message d ident a)]
       else client_calls s)"
    unfolding s1_eq by (rule publish_sensor_discovery_identified(2) [OF Cons.prems])
  from Cons.IH [OF d1 Cons.prems(2)] show ?case
    by (simp add: s1 c1 calls1)
qed

subsection \<open>The concrete inputs\<close>

lemma fresh_client_fields:
  "device_info_dict fresh_client = None"
  "is_connected fresh_client = False"
  "client_calls fresh_client = []"
  "printed fresh_client = []"
  "log_level fresh_client = ''info''"
  "broker_address fresh_client = ''core-mosquitto''"
  "port fresh_client = 1883"
  by (simp_all add: fresh_client_def init_def)

lemma identified_client_fields:
  "device_info_dict identified_client = Some device_192_168_1_5"
  "is_connected identified_client = False"
  "client_calls identified_client = []"
  "log_level identified_client = ''info''"
  "broker_address identified_client = ''core-mosquitto''"
  "port identified_client = 1883"
  by (simp_all add: identified_client_def set_device_info_def Let_def sanitized_ip_def
      replace_char_def str_or_def fresh_client_fields device_192_168_1_5_def)

lemma identifiers_192_168_1_5:
  "identifiers device_192_168_1_5 = ''idrac_controller_192_168_1_5_device'' # []"
  by (simp add: device_192_168_1_5_def)

subsection \<open>The connect callback\<close>

lemma on_connect_identified:
  assumes "device_info_dict s = Some d" and "identifiers d = ident # rest"
  shows "fst (on_connect tr 0 s) = Returned PyNone \<and>
         is_connected (snd (on_connect tr 0 s)) \<and>
         client_calls (snd (on_connect tr 0 s)) =
           client_calls s @
           [Publish (status_config_message d ident), Publish online_message] @
           map (\<lambda>a. Publish (discovery_message d ident a)) static_sensors"
proof -
  define s2 where "s2 = (log_msg ''info'' (ConnectedSuccessfully (broker_address s) (port s)) s)\<lparr>is_connected := True\<rparr>"
  define s3 where "s3 = snd (publish tr (status_config_topic ident)
                      (JsonDumps (JObject (status_config_payload d ident))) True 0 s2)"
  define s4 where "s4 = snd (publish tr status_topic (Text ''online'') True 0 s3)"
  define s5 where "s5 = log_msg ''info'' PublishingStaticDiscoveries s4"
  have s2: "device_info_dict s2 = Some d" "is_connected s2" "client_calls s2 = client_calls s"
    by (simp_all add: s2_def assms)
  have s3: "device_info_dict s3 = Some d" "is_connected s3"
      "client_calls s3 = client_calls s @ [Publish (status_config_message d ident)]"
    by (simp_all add: s3_def s2 publish_calls status_config_message_def)
  have s4: "device_info_dict s4 = Some d" "is_connected s4"
      "client_calls s4 = client_calls s @ [Publish (status_config_message d ident), Publish online_message]"
    by (simp_all add: s4_def s3 publish_calls online_message_def status_topic_def)
  have s5: "device_info_dict s5 = Some d" "is_connected s5"
      "client_calls s5 = client_calls s @ [Publish (status_config_message d ident), Publish online_message]"
    by (simp_all add: s5_def s4)
  have run: "on_connect tr 0 s = publish_discoveries tr static_sensors s5"
    unfolding s5_def s4_def s3_def s2_def
    by (simp add: on_connect_def Let_def assms publish_static_sensor_discoveries_def)
  show ?thesis
    using publish_discoveries_identified [OF s5(1) assms(2), of tr static_sensors]
      publish_discoveries_frame [of tr static_sensors s5]
    by (simp add: run s5)
qed

lemma publish_static_sensor_discoveries_frame:
  "is_connected (snd (publish_static_sensor_discoveries tr s)) = is_connected s \<and>
   device_info_dict (snd (publish_static_sensor_discoveries tr s)) = device_info_dict s \<and>
   log_level (snd (publish_static_sensor_discoveries tr s)) = log_level s"
  using publish_discoveries_frame
    [of tr static_sensors "log_msg ''info'' PublishingStaticDiscoveries s"]
  by (simp add: publish_static_sensor_discoveries_def)

lemma on_connect_frame:
  "is_connected (snd (on_connect tr code s)) = (code = 0) \<and>
   device_info_dict (snd (on_connect tr code s)) = device_info_dict s \<and>
   log_level (snd (on_connect tr code s)) = log_level s"
  by (simp add: on_connect_def Let_def publish_static_sensor_discoveries_frame
      split: option.splits list.splits)

lemma connected_client_fields:
  "device_info_dict connected_client = Some device_192_168_1_5"
  "is_connected connected_client = True"
  "log_level connected_client = ''info''"
  "length (client_calls connected_client) = 7"
  using on_connect_frame [of accepting_transport 0 identified_client]
    on_connect_identified [OF identified_client_fields(1) identifiers_192_168_1_5,
      of accepting_transport]
  by (simp_all add: connected_client_def identified_client_fields static_sensors_def)

subsection \<open>Decimal numerals\<close>











subsection \<open>JSON numbers\<close>







subsection \<open>JSON strings\<close>






subsection \<open>JSON values\<close>






subsection \<open>Dictionaries\<close>



subsection \<open>Members of a dictionary\<close>








subsection \<open>The library on concrete texts\<close>

lemma json_dumps_example:
  "json_dumps (JObject [(''temperature'', JFloat (PyFloat False 41 ''2'' None)),
                        (''speed'', JNull), (''power'', JInt (- 215))]) =
   ''{'' @ quote_char # ''temperature'' @ quote_char # '': 41.2, '' @
   quote_char # ''speed'' @ quote_char # '': null, '' @
   quote_char # ''power'' @ quote_char # '': -215}''"
  by code_simp

lemma json_loads_example:
  "json_loads (''{ '' @ quote_char # ''a'' @ quote_char # '' :1.5e+3 ,'' @
               quote_char # ''b'' @ quote_char # '':[true, 0]}'') =
   Some (JObject [(''a'', JFloat (PyFloat False 1 ''5'' (Some (False, ''3'')))),
                  (''b'', JArray [JBool True, JInt 0])])"
  "json_loads ''[1,]'' = None"
  "json_loads ''012'' = None"
  by code_simp+

section \<open>The claims\<close>

text \<open>
  C4, as the code has it. \<open>set_device_info\<close> replaces every dot of the address by an
  underscore and keeps every other character; an absent or empty address gives the
  placeholder \<open>default_ip\<close>. The two addresses of the specification give the identifiers
  it names, and on an address of letters, digits and dots the identifier is the one the
  specification describes.
\<close>

theorem set_device_info_identifier:
  "map_option identifiers (device_info_dict (set_device_info mf mdl addr s)) =
     Some [''idrac_controller_'' @
           (case addr of
              None \<Rightarrow> ''default_ip''
            | Some a \<Rightarrow> if a = [] then ''default_ip''
                        else map (\<lambda>c. if c = CHR ''.'' then CHR ''_'' else c) a) @
           ''_device''] \<and>
   map_option identifiers (device_info_dict (set_device_info mf mdl (Some ''192.168.1.5'') s)) =
     Some [''idrac_controller_192_168_1_5_device''] \<and>
   map_option identifiers (device_info_dict (set_device_info mf mdl None s)) =
     Some [''idrac_controller_default_ip_device''] \<and>
   (a \<noteq> [] \<and> list_all (\<lambda>c. alphanumeric c \<or> c = CHR ''.'') a \<longrightarrow>
      map_option identifiers (device_info_dict (set_device_info mf mdl (Some a) s)) =
        Some [spec_device_identifier (Some a)])"
proof -
  have agree: "map (\<lambda>c. if c = CHR ''.'' then CHR ''_'' else c) a =
               map (\<lambda>c. if alphanumeric c then c else CHR ''_'') a"
    if "list_all (\<lambda>c. alphanumeric c \<or> c = CHR ''.'') a"
    using that by (induction a) (auto simp: alphanumeric_def)
  have general: "map_option identifiers (device_info_dict (set_device_info mf mdl x s)) =
     Some [''idrac_controller_'' @
           (case x of
              None \<Rightarrow> ''default_ip''
            | Some a \<Rightarrow> if a = [] then ''default_ip''
                        else map (\<lambda>c. if c = CHR ''.'' then CHR ''_'' else c) a) @
           ''_device'']" for x
    by (simp add: set_device_info_def Let_def sanitized_ip_def replace_char_def
        split: option.splits list.splits)
  show ?thesis
    unfolding general
    by (simp add: spec_device_identifier_def agree)
qed

theorem set_device_info_identifier_witness:
  "''192.168.1.5'' \<noteq> [] \<and>
   list_all (\<lambda>c. alphanumeric c \<or> c = CHR ''.'') ''192.168.1.5'' \<and>
   map_option identifiers
     (device_info_dict (set_device_info None None (Some ''192.168.1.5'') fresh_client)) =
     Some [spec_device_identifier (Some ''192.168.1.5'')] \<and>
   spec_device_identifier (Some ''192.168.1.5'') = ''idrac_controller_192_168_1_5_device''"
proof -
  have h: "list_all (\<lambda>c. alphanumeric c \<or> c = CHR ''.'') ''192.168.1.5''"
    by (simp add: alphanumeric_def)
  have v: "spec_device_identifier (Some ''192.168.1.5'') = ''idrac_controller_192_168_1_5_device''"
    by (simp add: spec_device_identifier_def alphanumeric_def)
  from set_device_info_identifier [of None None "Some ''192.168.1.5''" fresh_client "''192.168.1.5''"]
  show ?thesis
    using h v by simp
qed

text \<open>
  C4, as the specification states it, fails on an address with a separator other than a
  dot: the colons of the IPv6 address \<open>fe80::1\<close> stay in the identifier.
\<close>

theorem set_device_info_identifier_counterexample:
  "map_option identifiers
     (device_info_dict (set_device_info None None (Some ''fe80::1'') fresh_client)) =
     Some [''idrac_controller_fe80::1_device''] \<and>
   spec_device_identifier (Some ''fe80::1'') = ''idrac_controller_fe80__1_device'' \<and>
   map_option identifiers
     (device_info_dict (set_device_info None None (Some ''fe80::1'') fresh_client)) \<noteq>
     Some [spec_device_identifier (Some ''fe80::1'')]"
  by (simp add: set_device_info_def Let_def sanitized_ip_def replace_char_def
      spec_device_identifier_def alphanumeric_def)

text \<open>
  C5. Without a device identity, \<open>publish_sensor_discovery\<close> returns \<open>None\<close> without
  raising, makes no call on the paho client, and passes one warning to \<open>_log\<close>, which
  prints it unless the configured level is above \<open>warning\<close>.
\<close>

theorem publish_sensor_discovery_without_identity:
  assumes "device_info_dict s = None"
  shows "publish_sensor_discovery tr a s =
           (Returned PyNone,
            log_msg ''warning'' (DiscoveryDeviceInfoNotSet (sensor_name a)) s) \<and>
         client_calls (snd (publish_sensor_discovery tr a s)) = client_calls s \<and>
         printed (snd (publish_sensor_discovery tr a s)) =
           (if levels_get (log_level s) \<le> 2
            then printed s @ [(''warning'', DiscoveryDeviceInfoNotSet (sensor_name a))]
            else printed s)"
  using assms
  by (simp add: publish_sensor_discovery_def log_msg_printed levels_get_lower)

theorem publish_sensor_discovery_without_identity_witness:
  "device_info_dict fresh_client = None \<and>
   fst (publish_sensor_discovery accepting_transport inlet_temp fresh_client) = Returned PyNone \<and>
   client_calls (snd (publish_sensor_discovery accepting_transport inlet_temp fresh_client)) = [] \<and>
   printed (snd (publish_sensor_discovery accepting_transport inlet_temp fresh_client)) =
     [(''warning'', DiscoveryDeviceInfoNotSet ''Inlet Temperature'')]"
proof -
  have h: "device_info_dict fresh_client = None"
    by (simp add: fresh_client_fields)
  have l: "levels_get ''info'' = 1"
    by (simp add: levels_get_def levels_def)
  from publish_sensor_discovery_without_identity [OF h, of accepting_transport inlet_temp]
  show ?thesis
    by (simp add: fresh_client_fields l inlet_temp_def plain_sensor_def log_msg_printed
        levels_get_lower)
qed

text \<open>
  C10. A successful connect callback on a client without device identity sets the
  connection flag, hands the paho client the retained \<open>online\<close> status message and
  nothing else, returns without raising, and ends with the warning of the skipped
  static discoveries.
\<close>

theorem on_connect_without_identity:
  assumes "device_info_dict s = None"
  shows "fst (on_connect tr 0 s) = Returned PyNone \<and>
         is_connected (snd (on_connect tr 0 s)) \<and>
         client_calls (snd (on_connect tr 0 s)) =
           client_calls s @
           [Publish \<lparr>topic = ''ha_idrac_controller/status'', payload = Text ''online'',
                     qos = 0, retain = True\<rparr>] \<and>
         snd (on_connect tr 0 s) =
           log_msg ''warning'' SkippingStaticDiscoveries
             (snd (publish tr ''ha_idrac_controller/status'' (Text ''online'') True 0
                ((log_msg ''info'' (ConnectedSuccessfully (broker_address s) (port s)) s)
                   \<lparr>is_connected := True\<rparr>))) \<and>
         (levels_get (log_level s) \<le> 2 \<longrightarrow>
            last (printed (snd (on_connect tr 0 s))) = (''warning'', SkippingStaticDiscoveries))"
  using assms
  by (simp add: on_connect_def Let_def publish_static_sensor_discoveries_def publish_calls
      status_topic_def log_msg_printed levels_get_lower)

theorem on_connect_without_identity_witness:
  "device_info_dict fresh_client = None \<and>
   fst (on_connect accepting_transport 0 fresh_client) = Returned PyNone \<and>
   is_connected (snd (on_connect accepting_transport 0 fresh_client)) \<and>
   client_calls (snd (on_connect accepting_transport 0 fresh_client)) =
     [Publish \<lparr>topic = ''ha_idrac_controller/status'', payload = Text ''online'',
               qos = 0, retain = True\<rparr>] \<and>
   last (printed (snd (on_connect accepting_transport 0 fresh_client))) =
     (''warning'', SkippingStaticDiscoveries)"
proof -
  have h: "device_info_dict fresh_client = None"
    by (simp add: fresh_client_fields)
  have l: "levels_get (log_level fresh_client) \<le> 2"
    by (simp add: fresh_client_fields levels_get_def levels_def)
  from on_connect_without_identity [OF h, of accepting_transport] l
  show ?thesis
    by (simp add: fresh_client_fields publish_calls log_msg_printed levels_get_lower)
qed

text \<open>
  C2, as the code has it. On a successful connect callback of a client with a device
  identity, the calls on the paho client are, in this order: the retained connectivity
  discovery, the retained \<open>online\<close> status, and the discoveries of the five static
  sensors (inlet temperature, exhaust temperature, target fan speed, hottest CPU
  temperature, power consumption). The callback returns without raising and sets the
  connection flag.
\<close>

theorem on_connect_publish_sequence:
  assumes "device_info_dict s = Some d" and "identifiers d = ident # rest"
  shows "fst (on_connect tr 0 s) = Returned PyNone \<and>
         is_connected (snd (on_connect tr 0 s)) \<and>
         client_calls (snd (on_connect tr 0 s)) =
           client_calls s @
           [Publish (status_config_message d ident),
            Publish \<lparr>topic = ''ha_idrac_controller/status'', payload = Text ''online'',
                      qos = 0, retain = True\<rparr>,
            Publish (discovery_message d ident inlet_temp),
            Publish (discovery_message d ident exhaust_temp),
            Publish (discovery_message d ident target_fan_speed),
            Publish (discovery_message d ident hottest_cpu_temp),
            Publish (discovery_message d ident power_consumption)] \<and>
         retain (status_config_message d ident) \<and>
         map sensor_name [inlet_temp, exhaust_temp, target_fan_speed, hottest_cpu_temp,
                          power_consumption] =
           [''Inlet Temperature'', ''Exhaust Temperature'', ''Target Fan Speed'',
            ''Hottest CPU Temp'', ''Power Consumption'']"
  using on_connect_identified [OF assms, of tr]
  by (simp add: static_sensors_def online_message_def status_config_message_def
      inlet_temp_def exhaust_temp_def target_fan_speed_def hottest_cpu_temp_def
      power_consumption_def plain_sensor_def)

theorem on_connect_publish_sequence_witness:
  "device_info_dict identified_client = Some device_192_168_1_5 \<and>
   identifiers device_192_168_1_5 = [''idrac_controller_192_168_1_5_device''] \<and>
   map (\<lambda>c. case c of Publish m \<Rightarrow> topic m | _ \<Rightarrow> [])
     (client_calls (snd (on_connect accepting_transport 0 identified_client))) =
     [''homeassistant/binary_sensor/idrac_controller_idrac_controller_192_168_1_5_device/status/config'',
      ''ha_idrac_controller/status'',
      ''homeassistant/sensor/idrac_controller_192_168_1_5_device/inlet_temp/config'',
      ''homeassistant/sensor/idrac_controller_192_168_1_5_device/exhaust_temp/config'',
      ''homeassistant/sensor/idrac_controller_192_168_1_5_device/target_fan_speed/config'',
      ''homeassistant/sensor/idrac_controller_192_168_1_5_device/hottest_cpu_temp/config'',
      ''homeassistant/sensor/idrac_controller_192_168_1_5_device/power_consumption/config'']"
proof -
  note h1 = identified_client_fields(1)
  note h2 = identifiers_192_168_1_5
  from on_connect_publish_sequence [OF h1 h2, of accepting_transport]
  show ?thesis
    by (simp add: h1 h2 identified_client_fields status_config_message_def
        status_config_topic_def discovery_message_def config_topic_def
        config_topic_slug_part_def str_or_def inlet_temp_def exhaust_temp_def
        target_fan_speed_def hottest_cpu_temp_def power_consumption_def plain_sensor_def)
qed

text \<open>
  C2, as the specification states it, fails: the first message of a successful
  connect callback is the connectivity discovery, and the \<open>online\<close> status comes
  second.
\<close>

theorem on_connect_online_first_counterexample:
  "hd (client_calls (snd (on_connect accepting_transport 0 identified_client))) \<noteq>
     Publish \<lparr>topic = ''ha_idrac_controller/status'', payload = Text ''online'',
               qos = 0, retain = True\<rparr> \<and>
   client_calls (snd (on_connect accepting_transport 0 identified_client)) ! 1 =
     Publish \<lparr>topic = ''ha_idrac_controller/status'', payload = Text ''online'',
               qos = 0, retain = True\<rparr>"
  using on_connect_identified [OF identified_client_fields(1) identifiers_192_168_1_5,
      of accepting_transport]
  by (simp add: identified_client_fields online_message_def status_config_message_def)

text \<open>
  C3. For the address \<open>192.168.1.5\<close> the connectivity discovery goes to a topic whose
  node part is the device identifier with the prefix \<open>idrac_controller_\<close> a second
  time; the unique id has the same doubled prefix. The payload has the keys the
  specification lists.
\<close>

theorem connectivity_discovery_topic_192_168_1_5:
  "hd (client_calls (snd (on_connect accepting_transport 0 identified_client))) =
     Publish
       \<lparr>topic = ''homeassistant/binary_sensor/idrac_controller_idrac_controller_192_168_1_5_device/status/config'',
        payload = JsonDumps (JObject
          [(''name'', JString ''iDRAC Controller Connectivity''),
           (''state_topic'', JString ''ha_idrac_controller/status''),
           (''unique_id'', JString ''idrac_controller_idrac_controller_192_168_1_5_device_connectivity''),
           (''device_class'', JString ''connectivity''),
           (''payload_on'', JString ''online''),
           (''payload_off'', JString ''offline''),
           (''device'', JObject
              [(''identifiers'', JArray [JString ''idrac_controller_192_168_1_5_device'']),
               (''name'', JString ''iDRAC Controller (192.168.1.5)''),
               (''model'', JString ''HA iDRAC Controller''),
               (''manufacturer'', JString ''HA Add-on'')])]),
        qos = 0, retain = True\<rparr> \<and>
   ''homeassistant/binary_sensor/idrac_controller_idrac_controller_192_168_1_5_device/status/config'' \<noteq>
   ''homeassistant/binary_sensor/'' @ ''idrac_controller_192_168_1_5_device'' @ ''/status/config''"
  using on_connect_identified [OF identified_client_fields(1) identifiers_192_168_1_5,
      of accepting_transport]
  by (simp add: identified_client_fields status_config_message_def status_config_topic_def
      status_config_payload_def device_json_def device_192_168_1_5_def)

text \<open>
  C1, as the code has it. \<open>publish_sensor_state\<close> never returns a boolean: its last
  statement calls \<open>self.publish\<close> and drops the result. With a device identity and no
  connection it returns \<open>None\<close> without raising, makes no call on the paho client and
  leaves the warning of \<open>publish\<close>; the \<open>publish\<close> it calls returns \<open>False\<close>.
\<close>

theorem publish_sensor_state_not_connected:
  "fst (publish_sensor_state tr slug v suffix s) \<noteq> Returned (PyBool b) \<and>
   (device_info_dict s = Some d \<and> identifiers d = ident # rest \<and> \<not> is_connected s \<longrightarrow>
      publish_sensor_state tr slug v suffix s =
        (Returned PyNone,
         log_msg ''warning''
           (NotConnectedCannotPublish
              (''ha_idrac_controller/sensor/'' @ ident @ ''/'' @ slug @
               (case suffix of None \<Rightarrow> [] | Some x \<Rightarrow> x) @ ''/state'')) s) \<and>
      client_calls (snd (publish_sensor_state tr slug v suffix s)) = client_calls s \<and>
      fst (publish tr tp pl rt q s) = False)"
proof -
  have sfx: "str_or suffix [] = (case suffix of None \<Rightarrow> [] | Some x \<Rightarrow> x)"
    by (simp add: str_or_def split: option.splits list.splits)
  have never_bool: "fst (publish_sensor_state tr slug v suffix s) \<noteq> Returned (PyBool b)"
    by (simp add: publish_sensor_state_def split: option.splits list.splits)
  show ?thesis
    using never_bool
    by (simp add: publish_sensor_state_def publish_not_connected state_topic_def
        state_topic_base_def sfx)
qed

theorem publish_sensor_state_not_connected_witness:
  "device_info_dict identified_client = Some device_192_168_1_5 \<and>
   identifiers device_192_168_1_5 = [''idrac_controller_192_168_1_5_device''] \<and>
   \<not> is_connected identified_client \<and>
   fst (publish_sensor_state accepting_transport ''inlet_temp''
          (JObject [(''temperature'', JInt 42)]) None identified_client) = Returned PyNone \<and>
   client_calls (snd (publish_sensor_state accepting_transport ''inlet_temp''
          (JObject [(''temperature'', JInt 42)]) None identified_client)) = [] \<and>
   fst (publish accepting_transport
          ''ha_idrac_controller/sensor/idrac_controller_192_168_1_5_device/inlet_temp/state''
          (JsonDumps (JObject [(''temperature'', JInt 42)])) False 0 identified_client) = False"
proof -
  note h1 = identified_client_fields(1)
  note h2 = identifiers_192_168_1_5
  have h3: "\<not> is_connected identified_client"
    by (simp add: identified_client_fields)
  from publish_sensor_state_not_connected
    [of accepting_transport "''inlet_temp''" "JObject [(''temperature'', JInt 42)]" None
        identified_client _ device_192_168_1_5 "''idrac_controller_192_168_1_5_device''" "[]"
        "''ha_idrac_controller/sensor/idrac_controller_192_168_1_5_device/inlet_temp/state''"
        "JsonDumps (JObject [(''temperature'', JInt 42)])" False 0]
  show ?thesis
    using h1 h2 h3 by (simp add: identified_client_fields)
qed

text \<open>
  C1, as the specification states it, fails: with a device identity and no connection
  the call returns \<open>None\<close>, which is not the boolean \<open>False\<close>.
\<close>

theorem publish_sensor_state_returns_false_counterexample:
  "\<not> is_connected identified_client \<and>
   fst (publish_sensor_state accepting_transport ''inlet_temp''
          (JObject [(''temperature'', JInt 42)]) None identified_client) = Returned PyNone \<and>
   fst (publish_sensor_state accepting_transport ''inlet_temp''
          (JObject [(''temperature'', JInt 42)]) None identified_client) \<noteq>
     Returned (PyBool False)"
  by (simp add: publish_sensor_state_def identified_client_fields device_192_168_1_5_def)

text \<open>
  C6, as the code has it. With a device identity and a connection,
  \<open>publish_sensor_discovery\<close> hands the paho client one retained message with
  quality of service 0 on the topic \<open>homeassistant/sensor/<device-id>/<slug><suffix>/config\<close>.
  Its payload has the name, the state topic, the unique id, the device block and the
  availability keys, followed by those optional keys whose argument is a non-empty
  string. The call returns \<open>None\<close> without raising.
\<close>

theorem publish_sensor_discovery_connected:
  assumes "device_info_dict s = Some d" and "identifiers d = ident # rest"
    and "is_connected s"
  shows "fst (publish_sensor_discovery tr a s) = Returned PyNone \<and>
         client_calls (snd (publish_sensor_discovery tr a s)) =
           client_calls s @
           [Publish
              \<lparr>topic = ''homeassistant/sensor/'' @ ident @ ''/'' @ sensor_type_slug a @
                       (case unique_id_suffix a of None \<Rightarrow> [] | Some x \<Rightarrow> x) @ ''/config'',
               payload = JsonDumps (JObject
                 ([(''name'', JString (sensor_name a)),
                   (''state_topic'',
                    JString (''ha_idrac_controller/sensor/'' @ ident @ ''/'' @ sensor_type_slug a @
                             (case unique_id_suffix a of None \<Rightarrow> [] | Some x \<Rightarrow> x) @ ''/state'')),
                   (''unique_id'',
                    JString (ident @ ''_'' @ sensor_type_slug a @
                             (case unique_id_suffix a of
                                None \<Rightarrow> []
                              | Some x \<Rightarrow> if x = [] then [] else ''_'' @ x))),
                   (''device'',
                    JObject [(''identifiers'', JArray (map JString (identifiers d))),
                             (''name'', JString (name d)),
                             (''model'', JString (model d)),
                             (''manufacturer'', JString (manufacturer d))]),
                   (''availability_topic'', JString ''ha_idrac_controller/status''),
                   (''payload_available'', JString ''online''),
                   (''payload_not_available'', JString ''offline'')] @
                  [(k, JString x).
                     (k, Some x) \<leftarrow> [(''device_class'', device_class a),
                                     (''unit_of_measurement'', unit_of_measurement a),
                                     (''icon'', icon a),
                                     (''value_template'', value_template a),
                                     (''entity_category'', entity_category a),
                                     (''state_class'', state_class a)],
                     x \<noteq> []])),
               qos = 0, retain = True\<rparr>]"
proof -
  have sfx: "str_or x [] = (case x of None \<Rightarrow> [] | Some y \<Rightarrow> y)" for x
    by (simp add: str_or_def split: option.splits list.splits)
  have opt: "optional_key k x = [(k', JString y). (k', Some y) \<leftarrow> [(k, x)], y \<noteq> []]" for k x
    by (simp add: optional_key_def split: option.splits list.splits)
  have uid: "base_unique_id ident a =
      ident @ ''_'' @ sensor_type_slug a @
      (case unique_id_suffix a of None \<Rightarrow> [] | Some x \<Rightarrow> if x = [] then [] else ''_'' @ x)"
    by (simp add: base_unique_id_def Let_def split: option.splits list.splits)
  have msg: "discovery_message d ident a =
      \<lparr>topic = ''homeassistant/sensor/'' @ ident @ ''/'' @ sensor_type_slug a @
                (case unique_id_suffix a of None \<Rightarrow> [] | Some x \<Rightarrow> x) @ ''/config'',
       payload = JsonDumps (JObject
         ([(''name'', JString (sensor_name a)),
           (''state_topic'',
            JString (''ha_idrac_controller/sensor/'' @ ident @ ''/'' @ sensor_type_slug a @
                     (case unique_id_suffix a of None \<Rightarrow> [] | Some x \<Rightarrow> x) @ ''/state'')),
           (''unique_id'',
            JString (ident @ ''_'' @ sensor_type_slug a @
                     (case unique_id_suffix a of
                        None \<Rightarrow> []
                      | Some x \<Rightarrow> if x = [] then [] else ''_'' @ x))),
           (''device'',
            JObject [(''identifiers'', JArray (map JString (identifiers d))),
                     (''name'', JString (name d)),
                     (''model'', JString (model d)),
                     (''manufacturer'', JString (manufacturer d))]),
           (''availability_topic'', JString ''ha_idrac_controller/status''),
           (''payload_available'', JString ''online''),
           (''payload_not_available'', JString ''offline'')] @
          [(k, JString x).
             (k, Some x) \<leftarrow> [(''device_class'', device_class a),
                             (''unit_of_measurement'', unit_of_measurement a),
                             (''icon'', icon a),
                             (''value_template'', value_template a),
                             (''entity_category'', entity_category a),
                             (''state_class'', state_class a)],
             x \<noteq> []])),
       qos = 0, retain = True\<rparr>"
    unfolding discovery_message_def discovery_payload_def config_topic_def
      config_topic_slug_part_def state_topic_base_def device_json_def sfx uid opt
    by simp
  show ?thesis
    using publish_sensor_discovery_identified [OF assms(1,2), of tr a] assms(3)
    by (simp only: msg if_True simp_thms)
qed

theorem publish_sensor_discovery_connected_witness:
  "device_info_dict connected_client = Some device_192_168_1_5 \<and>
   identifiers device_192_168_1_5 = [''idrac_controller_192_168_1_5_device''] \<and>
   is_connected connected_client \<and>
   fst (publish_sensor_discovery accepting_transport
          ((plain_sensor ''fan_rpm'' ''Fan RPM'')
             \<lparr>unit_of_measurement := Some ''RPM'', unique_id_suffix := Some ''1''\<rparr>)
          connected_client) = Returned PyNone \<and>
   last (client_calls (snd (publish_sensor_discovery accepting_transport
          ((plain_sensor ''fan_rpm'' ''Fan RPM'')
             \<lparr>unit_of_measurement := Some ''RPM'', unique_id_suffix := Some ''1''\<rparr>)
          connected_client))) =
     Publish
       \<lparr>topic = ''homeassistant/sensor/idrac_controller_192_168_1_5_device/fan_rpm1/config'',
        payload = JsonDumps (JObject
          [(''name'', JString ''Fan RPM''),
           (''state_topic'',
            JString ''ha_idrac_controller/sensor/idrac_controller_192_168_1_5_device/fan_rpm1/state''),
           (''unique_id'', JString ''idrac_controller_192_168_1_5_device_fan_rpm_1''),
           (''device'', JObject
              [(''identifiers'', JArray [JString ''idrac_controller_192_168_1_5_device'']),
               (''name'', JString ''iDRAC Controller (192.168.1.5)''),
               (''model'', JString ''HA iDRAC Controller''),
               (''manufacturer'', JString ''HA Add-on'')]),
           (''availability_topic'', JString ''ha_idrac_controller/status''),
           (''payload_available'', JString ''online''),
           (''payload_not_available'', JString ''offline''),
           (''unit_of_measurement'', JString ''RPM'')]),
        qos = 0, retain = True\<rparr>"
proof -
  note h1 = connected_client_fields(1)
  note h2 = identifiers_192_168_1_5
  have h3: "is_connected connected_client"
    by (simp add: connected_client_fields)
  from publish_sensor_discovery_connected [OF h1 h2 h3, of accepting_transport
      "(plain_sensor ''fan_rpm'' ''Fan RPM'')
         \<lparr>unit_of_measurement := Some ''RPM'', unique_id_suffix := Some ''1''\<rparr>"]
  show ?thesis
    by (simp add: h1 h2 h3 plain_sensor_def device_192_168_1_5_def)
qed

text \<open>
  C6, as the specification states it, fails twice. With a device identity and no
  connection nothing is handed to the paho client. With a connection, an optional
  argument supplied as the empty string is left out of the payload: the message is the
  one of the same sensor without that argument.
\<close>

theorem publish_sensor_discovery_counterexample:
  "device_info_dict identified_client = Some device_192_168_1_5 \<and>
   client_calls (snd (publish_sensor_discovery accepting_transport inlet_temp
                        identified_client)) = [] \<and>
   last (client_calls (snd (publish_sensor_discovery accepting_transport
           ((plain_sensor ''fan_rpm'' ''Fan RPM'')\<lparr>icon := Some []\<rparr>) connected_client))) =
   last (client_calls (snd (publish_sensor_discovery accepting_transport
           (plain_sensor ''fan_rpm'' ''Fan RPM'') connected_client)))"
  using publish_sensor_discovery_identified(2)
      [OF identified_client_fields(1) identifiers_192_168_1_5, of accepting_transport inlet_temp]
    publish_sensor_discovery_identified(2)
      [OF connected_client_fields(1) identifiers_192_168_1_5, of accepting_transport
        "(plain_sensor ''fan_rpm'' ''Fan RPM'')\<lparr>icon := Some []\<rparr>"]
    publish_sensor_discovery_identified(2)
      [OF connected_client_fields(1) identifiers_192_168_1_5, of accepting_transport
        "plain_sensor ''fan_rpm'' ''Fan RPM''"]
  by (simp add: identified_client_fields connected_client_fields discovery_message_def
      discovery_payload_def config_topic_def base_unique_id_def optional_key_def
      plain_sensor_def)

text \<open>
  C8. When the paho client raises in \<open>will_set\<close>, \<open>connect\<close> or \<open>loop_start\<close> during
  \<open>connect()\<close> on a client that is not connected, the method returns \<open>None\<close> without
  raising, the client is still not connected, and after the line announcing the
  attempt one error is passed to \<open>_log\<close>, which prints it unless the configured level
  is \<open>fatal\<close>: the refusal, the OS error or the generic failure, by the class of the
  exception.
\<close>

theorem connect_failure_caught:
  assumes "\<not> is_connected s" and "first_failure tr s = Some e"
  shows "fst (connect tr s) = Returned PyNone \<and>
         \<not> is_connected (snd (connect tr s)) \<and>
         printed (snd (connect tr s)) =
           printed (log_msg ''info'' (AttemptingToConnect (broker_address s) (port s)) s) @
           (if levels_get (log_level s) \<le> 3
            then [(''error'', connect_error_message e s)] else [])"
proof -
  have handler: "connect_handler e s' = log_msg ''error'' (connect_error_message e s) s'"
    if "broker_address s' = broker_address s" "port s' = port s" for s'
    using that by (cases e) (simp_all add: connect_handler_def connect_error_message_def)
  show ?thesis
    using assms
    by (auto simp add: connect_def first_failure_def client_call_def Let_def handler
        log_msg_printed levels_get_lower split: option.splits)
qed

theorem connect_failure_caught_witness:
  "\<not> is_connected fresh_client \<and>
   first_failure refusing_transport fresh_client = Some (ConnectionRefusedError ''refused'') \<and>
   fst (connect refusing_transport fresh_client) = Returned PyNone \<and>
   \<not> is_connected (snd (connect refusing_transport fresh_client)) \<and>
   printed (snd (connect refusing_transport fresh_client)) =
     [(''info'', AttemptingToConnect ''core-mosquitto'' 1883),
      (''error'', ConnectionRefused ''core-mosquitto'' 1883)]"
proof -
  have h1: "\<not> is_connected fresh_client"
    by (simp add: fresh_client_fields)
  have h2: "first_failure refusing_transport fresh_client =
            Some (ConnectionRefusedError ''refused'')"
    by (simp add: first_failure_def refusing_transport_def Let_def)
  have l: "levels_get ''info'' = 1"
    by (simp add: levels_get_def levels_def)
  from connect_failure_caught [OF h1 h2]
  show ?thesis
    using h1 h2
    by (simp add: fresh_client_fields l log_msg_printed levels_get_lower
        connect_error_message_def)
qed

text \<open>
  C9, as the code has it. No publish operation changes the connection flag, and
  neither do \<open>connect\<close>, \<open>configure_broker\<close> and \<open>set_device_info\<close>. It is written by
  the callbacks \<open>on_connect\<close> (true exactly for the result code 0) and \<open>on_disconnect\<close>
  (false), and by the method \<open>disconnect\<close>, which leaves it false whenever it returns.
\<close>

theorem publish_operations_keep_connection_state:
  "is_connected (snd (publish tr tp pl rt q s)) = is_connected s \<and>
   is_connected (snd (publish_sensor_discovery tr a s)) = is_connected s \<and>
   is_connected (snd (publish_sensor_state tr slug v suffix s)) = is_connected s \<and>
   is_connected (snd (publish_static_sensor_discoveries tr s)) = is_connected s \<and>
   is_connected (snd (connect tr s)) = is_connected s \<and>
   is_connected (snd (configure_broker tr host prt usr pwd lvl s)) = is_connected s \<and>
   is_connected (set_device_info mf mdl addr s) = is_connected s \<and>
   is_connected (snd (on_connect tr code s)) = (code = 0) \<and>
   is_connected (on_disconnect code s) = False \<and>
   (fst (disconnect tr s) = Returned PyNone \<longrightarrow> is_connected (snd (disconnect tr s)) = False)"
proof -
  have state: "is_connected (snd (publish_sensor_state tr slug v suffix s)) = is_connected s"
    by (simp add: publish_sensor_state_def split: option.splits list.splits)
  have handler: "is_connected (connect_handler e s') = is_connected s'" for e s'
    by (cases e) (simp_all add: connect_handler_def)
  have conn: "is_connected (snd (connect tr s)) = is_connected s"
    by (simp add: connect_def client_call_def Let_def handler split: option.splits)
  have conf: "is_connected (snd (configure_broker tr host prt usr pwd lvl s)) = is_connected s"
    by (simp add: configure_broker_def client_call_def Let_def split: option.splits)
  have dev: "is_connected (set_device_info mf mdl addr s) = is_connected s"
    by (simp add: set_device_info_def Let_def)
  have disc: "fst (disconnect tr s) = Returned PyNone \<longrightarrow>
              is_connected (snd (disconnect tr s)) = False"
    by (simp add: disconnect_def client_call_def split: option.splits)
  show ?thesis
    using publish_static_sensor_discoveries_frame [of tr s] on_connect_frame [of tr code s]
    by (simp add: state conn conf dev disc on_disconnect_def)
qed

theorem publish_operations_keep_connection_state_witness:
  "fst (disconnect accepting_transport connected_client) = Returned PyNone \<and>
   is_connected connected_client \<and>
   is_connected (snd (disconnect accepting_transport connected_client)) = False \<and>
   is_connected (snd (publish_sensor_state accepting_transport ''inlet_temp''
     (JObject [(''temperature'', JInt 42)]) None connected_client)) \<and>
   is_connected (snd (publish_static_sensor_discoveries accepting_transport connected_client))"
proof -
  have r: "fst (disconnect accepting_transport connected_client) = Returned PyNone"
    by (simp add: disconnect_def client_call_def accepting_transport_def
        connected_client_fields)
  from publish_operations_keep_connection_state
    [of accepting_transport _ _ _ _ connected_client _ "''inlet_temp''"
        "JObject [(''temperature'', JInt 42)]" None]
  show ?thesis
    using r by (simp add: connected_client_fields)
qed

text \<open>
  C9, as the specification states it, fails in its second half: the method
  \<open>disconnect\<close>, which is no callback of the transport, clears the connection flag.
\<close>

theorem disconnect_clears_flag_counterexample:
  "is_connected connected_client \<and>
   \<not> is_connected (snd (disconnect accepting_transport connected_client))"
  by (simp add: disconnect_def client_call_def accepting_transport_def
      connected_client_fields)



end
